theory Spec2Isabelle
  imports Complex_Main "HOL-Library.Word" "HOL-Library.Sublist"
begin

section \<open>src/converters/raster2svg.py: the boundary scan\<close>

text \<open>
  \<open>simple_trace\<close> first calls \<open>image.convert('L')\<close> of the imaging library, which is not
  code of this repository; the model starts from its result. A grayscale image has a
  \<open>size\<close> (width, height) and, through \<open>np.array\<close>, an array of unsigned bytes with
  \<open>height\<close> rows of \<open>width\<close> pixels each.
\<close>

record gray_image =
  size_width :: nat
  size_height :: nat
  img_array :: "8 word list list"

text \<open>What the imaging library guarantees of every image: the array is rectangular.\<close>

definition rectangular :: "gray_image \<Rightarrow> bool" where
  "rectangular g \<longleftrightarrow>
     length (img_array g) = size_height g \<and>
     list_all (\<lambda>row. length row = size_width g) (img_array g)"

text \<open>\<open>binary = img_array < threshold\<close>, elementwise.\<close>

definition binarize :: "8 word list list \<Rightarrow> int \<Rightarrow> bool list list" where
  "binarize arr threshold = map (map (\<lambda>p. uint p < threshold)) arr"

text \<open>
  The inner loop \<open>for x in range(1, width - 1)\<close> at a fixed \<open>y\<close>, over the remaining
  values of \<open>x\<close>, with the list \<open>paths\<close> built so far.
\<close>

fun scan_row :: "bool list list \<Rightarrow> nat \<Rightarrow> nat list \<Rightarrow> (nat \<times> nat) list \<Rightarrow> (nat \<times> nat) list" where
  "scan_row binary y [] paths = paths"
| "scan_row binary y (x # xs) paths =
     scan_row binary y xs
       (if binary ! y ! x then
          (if \<not> binary ! (y - 1) ! x \<or> \<not> binary ! (y + 1) ! x \<or>
              \<not> binary ! y ! (x - 1) \<or> \<not> binary ! y ! (x + 1)
           then paths @ [(x, y)] else paths)
        else paths)"

text \<open>The outer loop \<open>for y in range(1, height - 1)\<close>.\<close>

fun scan_rows :: "bool list list \<Rightarrow> nat list \<Rightarrow> nat list \<Rightarrow> (nat \<times> nat) list \<Rightarrow> (nat \<times> nat) list" where
  "scan_rows binary xrange [] paths = paths"
| "scan_rows binary xrange (y # ys) paths =
     scan_rows binary xrange ys (scan_row binary y xrange paths)"

text \<open>
  \<open>range(1, n - 1)\<close> is empty when \<open>n \<le> 2\<close>; so is \<open>[1..<n - 1]\<close> on \<open>nat\<close>, where
  \<open>0 - 1 = 0\<close>.
\<close>

definition simple_trace :: "gray_image \<Rightarrow> int \<Rightarrow> (nat \<times> nat) list \<times> nat \<times> nat" where
  "simple_trace img_gray threshold =
     (let width = size_width img_gray;
          height = size_height img_gray;
          binary = binarize (img_array img_gray) threshold;
          paths = scan_rows binary [1..<width - 1] [1..<height - 1] []
      in (paths, width, height))"

text \<open>The test of lines 38-40 on one pixel.\<close>

definition edge_at :: "bool list list \<Rightarrow> nat \<Rightarrow> nat \<Rightarrow> bool" where
  "edge_at binary y x \<longleftrightarrow>
     binary ! y ! x \<and>
     (\<not> binary ! (y - 1) ! x \<or> \<not> binary ! (y + 1) ! x \<or>
      \<not> binary ! y ! (x - 1) \<or> \<not> binary ! y ! (x + 1))"

text \<open>
  A 4 by 3 image with two dark pixels in the middle row and a bright border.
\<close>

definition sample_image :: gray_image where
  "sample_image = \<lparr> size_width = 4, size_height = 3,
     img_array = [[255, 255, 255, 255], [255, 0, 100, 255], [255, 255, 255, 255]] \<rparr>"

section \<open>Python values used by the two servers\<close>

text \<open>
  A Python \<open>str\<close> is a sequence of Unicode code points; the Cyrillic literals of the
  source are written as their code points. \<open>ascii\<close> embeds an ASCII literal.
\<close>

type_synonym pystr = "nat list"

definition ascii :: "string \<Rightarrow> pystr" where
  "ascii s = map of_char s"

text \<open>
  \<open>str.lower\<close> is a builtin, used by the source only in substring tests against
  keywords made of ASCII characters and of the Cyrillic letters \<open>U+0430-U+044F\<close>. The
  model has the lowercase form of every code point whose lowercase form holds one of
  these characters: \<open>A-Z\<close>, the Cyrillic capitals \<open>U+0410-U+042F\<close>, \<open>U+0130\<close> (which
  becomes \<open>i\<close> followed by \<open>U+0307\<close>) and \<open>U+212A\<close> (which becomes \<open>k\<close>); it also has
  \<open>U+0400-U+040F\<close>. The lowercase form of every other code point holds none of these
  characters, so leaving it unchanged alters no substring test of the source.
\<close>

definition lower_cp :: "nat \<Rightarrow> nat list" where
  "lower_cp c =
     (if 65 \<le> c \<and> c \<le> 90 then [c + 32]
      else if 1040 \<le> c \<and> c \<le> 1071 then [c + 32]
      else if 1024 \<le> c \<and> c \<le> 1039 then [c + 80]
      else if c = 304 then [105, 775]
      else if c = 8490 then [107]
      else [c])"

definition str_lower :: "pystr \<Rightarrow> pystr" where
  "str_lower s = concat (map lower_cp s)"

text \<open>\<open>word in s\<close> on strings is the contiguous-substring test, \<^const>\<open>sublist\<close>.\<close>

definition any_in :: "pystr list \<Rightarrow> pystr \<Rightarrow> bool" where
  "any_in words s = list_ex (\<lambda>word. sublist word s) words"

text \<open>An exception is observed only through \<open>str(e)\<close>.\<close>

datatype exn = Exception pystr

fun str_exn :: "exn \<Rightarrow> pystr" where
  "str_exn (Exception s) = s"

subsection \<open>print\<close>

text \<open>
  \<open>print\<close> writes to the standard output, taken to be UTF-8 with the \<open>strict\<close> error
  handler, the default. It encodes every code point except the surrogates
  \<open>U+D800-U+DFFF\<close>; on the first run of surrogates \<open>print\<close> raises \<open>UnicodeEncodeError\<close>,
  whose text names the run. A string read from JSON can hold a surrogate
  (\<open>"\ud800"\<close>).
\<close>

definition is_surrogate :: "nat \<Rightarrow> bool" where
  "is_surrogate c \<longleftrightarrow> 55296 \<le> c \<and> c \<le> 57343"

definition printable :: "pystr \<Rightarrow> bool" where
  "printable s = list_all (\<lambda>c. \<not> is_surrogate c) s"

definition hex_digit :: "nat \<Rightarrow> nat" where
  "hex_digit d = (if d < 10 then 48 + d else 87 + d)"

definition hex4 :: "nat \<Rightarrow> pystr" where
  "hex4 c = map hex_digit [c div 4096 mod 16, c div 256 mod 16, c div 16 mod 16, c mod 16]"

function decimal :: "nat \<Rightarrow> pystr" where
  "decimal n = (if n < 10 then [48 + n] else decimal (n div 10) @ [48 + n mod 10])"
  by pat_completeness auto
termination
  by (relation "measure id") auto

declare decimal.simps [simp del]

text \<open>The parts of the text of the \<open>UnicodeEncodeError\<close> of the UTF-8 codec.\<close>

definition codec_one_head :: pystr where
  "codec_one_head =
     [39, 117, 116, 102, 45, 56, 39, 32, 99, 111, 100, 101, 99, 32, 99, 97, 110, 39, 116,
      32, 101, 110, 99, 111, 100, 101, 32, 99, 104, 97, 114, 97, 99, 116, 101, 114, 32,
      39, 92, 117]"

definition codec_one_mid :: pystr where
  "codec_one_mid =
     [39, 32, 105, 110, 32, 112, 111, 115, 105, 116, 105, 111, 110, 32]"

definition codec_many_head :: pystr where
  "codec_many_head =
     [39, 117, 116, 102, 45, 56, 39, 32, 99, 111, 100, 101, 99, 32, 99, 97, 110, 39, 116,
      32, 101, 110, 99, 111, 100, 101, 32, 99, 104, 97, 114, 97, 99, 116, 101, 114, 115,
      32, 105, 110, 32, 112, 111, 115, 105, 116, 105, 111, 110, 32]"

definition codec_tail :: pystr where
  "codec_tail =
     [58, 32, 115, 117, 114, 114, 111, 103, 97, 116, 101, 115, 32, 110, 111, 116, 32, 97,
      108, 108, 111, 119, 101, 100]"

definition encode_error :: "pystr \<Rightarrow> pystr" where
  "encode_error s =
     (let start = length (takeWhile (\<lambda>c. \<not> is_surrogate c) s);
          run = takeWhile is_surrogate (drop start s)
      in if length run = 1
         then codec_one_head @ hex4 (hd run) @ codec_one_mid @ decimal start @ codec_tail
         else codec_many_head @ decimal start @ [45] @ decimal (start + length run - 1)
                @ codec_tail)"

text \<open>\<open>print(s)\<close>: the exception it raises, if any.\<close>

definition py_print :: "pystr \<Rightarrow> exn option" where
  "py_print s = (if printable s then None else Some (Exception (encode_error s)))"

subsection \<open>float\<close>

text \<open>
  A Python \<open>float\<close> is \<open>nan\<close>, an infinity or a finite number; an \<open>int\<close> compares with it
  by value. Every comparison with \<open>nan\<close> is false. \<open>max(a, b)\<close> keeps \<open>a\<close> unless
  \<open>b > a\<close>.
\<close>

datatype pyfloat = Nan | Neg_inf | Num real | Pos_inf

fun py_lt :: "pyfloat \<Rightarrow> pyfloat \<Rightarrow> bool" where
  "py_lt (Num a) (Num b) = (a < b)"
| "py_lt Neg_inf (Num b) = True"
| "py_lt Neg_inf Pos_inf = True"
| "py_lt (Num a) Pos_inf = True"
| "py_lt _ _ = False"

fun py_le :: "pyfloat \<Rightarrow> pyfloat \<Rightarrow> bool" where
  "py_le (Num a) (Num b) = (a \<le> b)"
| "py_le Nan _ = False"
| "py_le _ Nan = False"
| "py_le Neg_inf _ = True"
| "py_le _ Pos_inf = True"
| "py_le _ _ = False"

definition py_max :: "pyfloat \<Rightarrow> pyfloat \<Rightarrow> pyfloat" where
  "py_max a b = (if py_lt a b then b else a)"

text \<open>
  What \<open>g4f.ChatCompletion.create\<close> returns is observed in two ways: by \<open>str(response)\<close>
  and, in streaming mode, by iterating it. An iteration produces finitely many chunks
  and then either ends or raises.
\<close>

datatype stream_end = StopIteration | Raise exn

datatype g4f_response = Response (as_str: pystr) (chunks: "pystr list") (ending: stream_end)

text \<open>
  One invocation of the capability: the keyword arguments \<open>model\<close>, the \<open>content\<close> of the
  single user message, \<open>provider\<close>, \<open>stream\<close> and \<open>timeout\<close>. The library behind it is
  external: it is a parameter \<open>create\<close> that answers each invocation with an exception
  or a response, as a function of the arguments. Every function below returns the list
  of invocations it made, in order.
\<close>

datatype 'p call =
  Call (c_model: pystr) (c_content: pystr) (c_provider: "'p option") (c_stream: bool)
    (c_timeout: pyfloat)

type_synonym 'p create = "'p call \<Rightarrow> exn + g4f_response"

text \<open>
  \<open>elapsed\<close> is either a difference of two clock readings, which the model does not
  compute, or the literal of line 155.
\<close>

datatype elapsed_val = Wall_clock | Seconds real

section \<open>src/server/g4f\_python\_provider.py\<close>

subsection \<open>get\_chat\_response\<close>

text \<open>The provider classes imported on line 24; the import is taken to succeed.\<close>

datatype provider_cls =
  Qwen_Qwen_2_72B | Qwen_Qwen_2_5_Max | Qwen_Qwen_2_5 | Qwen_Qwen_2_5M
  | FreeGpt | HuggingChat | DeepInfra | You

definition provider_map :: "pystr \<rightharpoonup> provider_cls" where
  "provider_map = map_of
     [(ascii ''Qwen_Qwen_2_72B'', Qwen_Qwen_2_72B),
      (ascii ''Qwen_Qwen_2_5_Max'', Qwen_Qwen_2_5_Max),
      (ascii ''Qwen_Qwen_2_5'', Qwen_Qwen_2_5),
      (ascii ''Qwen_Qwen_2_5M'', Qwen_Qwen_2_5M),
      (ascii ''FreeGpt'', FreeGpt),
      (ascii ''HuggingChat'', HuggingChat),
      (ascii ''DeepInfra'', DeepInfra),
      (ascii ''You'', You)]"

text \<open>
  The dictionaries that \<open>get_chat_response\<close> returns, one optional field for each key
  that is written or read anywhere.
\<close>

record result =
  streaming :: "bool option"
  success :: "bool option"
  response :: "pystr option"
  provider :: "pystr option"
  model :: "pystr option"
  response_stream :: "g4f_response option"
  elapsed :: "elapsed_val option"
  error :: "pystr option"

text \<open>Lines 45-60: the model name chosen from the requested provider name.\<close>

definition model_for :: "pystr \<Rightarrow> pystr" where
  "model_for specific_provider =
     (if specific_provider = ascii ''Qwen_Qwen_2_5_Max'' then ascii ''qwen-max''
      else if specific_provider = ascii ''Qwen_Qwen_2_5'' then ascii ''qwen-2.5''
      else if specific_provider = ascii ''Qwen_Qwen_2_5M'' then ascii ''qwen-2.5''
      else if specific_provider = ascii ''Qwen_Qwen_2_72B'' then ascii ''qwen-2.5-72b''
      else if specific_provider = ascii ''You'' then ascii ''gpt-4o-mini''
      else if specific_provider = ascii ''HuggingChat'' then ascii ''llama-3.1-70b''
      else if specific_provider = ascii ''Blackbox'' then ascii ''blackbox''
      else ascii ''gpt-4o-mini'')"

text \<open>Lines 66-69: the timeout floors, applied once, to the requested provider name.\<close>

definition floor_timeout :: "pystr \<Rightarrow> pyfloat \<Rightarrow> pyfloat" where
  "floor_timeout specific_provider timeout =
     (if specific_provider = ascii ''Qwen_Qwen_2_72B'' then py_max timeout (Num 45)
      else if specific_provider \<in> set [ascii ''Qwen_Qwen_2_5_Max'', ascii ''Qwen_Qwen_2_5'']
        then py_max timeout (Num 30)
      else timeout)"

text \<open>Lines 111-116: the model name of a backup.\<close>

definition backup_model_for :: "pystr \<Rightarrow> pystr" where
  "backup_model_for backup_provider =
     (if backup_provider = ascii ''Qwen_Qwen_2_5_Max'' then ascii ''qwen-max''
      else if backup_provider = ascii ''Qwen_Qwen_2_72B'' then ascii ''qwen-2.5-72b''
      else ascii ''qwen-2.5'')"

text \<open>
  Lines 82-97 and, with the same shape, lines 128-143: the dictionary returned after an
  invocation that did not raise.
\<close>

definition answered :: "bool \<Rightarrow> pystr \<Rightarrow> pystr \<Rightarrow> g4f_response \<Rightarrow> result" where
  "answered use_stream name mdl r =
     (if use_stream then
        \<lparr> streaming = Some True, success = None, response = None, provider = Some name,
          model = Some mdl, response_stream = Some r, elapsed = Some Wall_clock,
          error = None \<rparr>
      else
        \<lparr> streaming = None, success = Some True, response = Some (as_str r),
          provider = Some name, model = Some mdl, response_stream = None,
          elapsed = Some Wall_clock, error = None \<rparr>)"

text \<open>Line 152, the text before the provider name.\<close>

definition apology_head :: pystr where
  "apology_head =
     [1048, 1079, 1074, 1080, 1085, 1080, 1090, 1077, 44, 32, 1074, 1086, 1079, 1085,
      1080, 1082, 1083, 1072, 32, 1087, 1088, 1086, 1073, 1083, 1077, 1084, 1072, 32,
      1089, 32, 1087, 1088, 1086, 1074, 1072, 1081, 1076, 1077, 1088, 1086, 1084, 32]"

text \<open>Line 152, the text after the provider name.\<close>

definition apology_tail :: pystr where
  "apology_tail =
     [46, 32, 1055, 1086, 1087, 1088, 1086, 1073, 1091, 1081, 1090, 1077, 32, 1077, 1097,
      1077, 32, 1088, 1072, 1079, 46]"

text \<open>Lines 150-156: the dictionary returned when no invocation succeeded.\<close>

definition exhausted :: "pystr \<Rightarrow> result" where
  "exhausted specific_provider =
     \<lparr> streaming = None, success = Some True,
       response = Some (apology_head @ specific_provider @ apology_tail),
       provider = Some (specific_provider @ ascii ''_fallback''),
       model = Some (ascii ''fallback''), response_stream = None,
       elapsed = Some (Seconds (1 / 10)), error = None \<rparr>"

definition backup_providers :: "pystr list" where
  "backup_providers =
     [ascii ''Qwen_Qwen_2_72B'', ascii ''Qwen_Qwen_2_5_Max'', ascii ''Qwen_Qwen_2_5'',
      ascii ''Qwen_Qwen_2_5M'']"

text \<open>The fixed parts of the texts printed on lines 100, 108, 126 and 146.\<close>

definition line_100_head :: pystr where
  "line_100_head =
     [10060, 32, 1054, 1096, 1080, 1073, 1082, 1072, 32, 71, 52, 70, 32, 1087, 1088, 1086,
      1074, 1072, 1081, 1076, 1077, 1088, 1072, 32]"

definition line_108_head :: pystr where
  "line_108_head =
     [128260, 32, 1055, 1088, 1086, 1073, 1091, 1077, 1084, 32, 1088, 1077, 1079, 1077,
      1088, 1074, 1085, 1099, 1081, 32, 1087, 1088, 1086, 1074, 1072, 1081, 1076, 1077,
      1088, 58, 32]"

definition line_126_head :: pystr where
  "line_126_head =
     [9989, 32, 1056, 1077, 1079, 1077, 1088, 1074, 1085, 1099, 1081, 32, 1087, 1088,
      1086, 1074, 1072, 1081, 1076, 1077, 1088, 32]"

definition line_126_tail :: pystr where
  "line_126_tail =
     [32, 1089, 1088, 1072, 1073, 1086, 1090, 1072, 1083, 33]"

definition line_146_head :: pystr where
  "line_146_head =
     [10060, 32, 1056, 1077, 1079, 1077, 1088, 1074, 1085, 1099, 1081, 32, 1087, 1088,
      1086, 1074, 1072, 1081, 1076, 1077, 1088, 32]"

text \<open>The texts printed on lines 100, 108, 126 and 146.\<close>

definition line_100 :: "pystr \<Rightarrow> pystr \<Rightarrow> pystr" where
  "line_100 specific_provider e = line_100_head @ specific_provider @ ascii '': '' @ e"

definition line_108 :: "pystr \<Rightarrow> pystr" where
  "line_108 backup_provider = line_108_head @ backup_provider"

definition line_126 :: "pystr \<Rightarrow> pystr" where
  "line_126 backup_provider = line_126_head @ backup_provider @ line_126_tail"

definition line_146 :: "pystr \<Rightarrow> pystr \<Rightarrow> pystr" where
  "line_146 backup_provider e = line_146_head @ backup_provider @ ascii '': '' @ e"

text \<open>
  Lines 107-143: the \<open>try\<close> block for one backup. It returns the invocation it made,
  if it got that far, and the dictionary it returns or the exception it raises.
\<close>

definition attempt_backup ::
  "provider_cls create \<Rightarrow> pystr \<Rightarrow> pystr \<Rightarrow> bool \<Rightarrow> pyfloat \<Rightarrow>
     provider_cls call list \<times> (exn + result)" where
  "attempt_backup create message backup_provider use_stream timeout =
     (case py_print (line_108 backup_provider) of
        Some err \<Rightarrow> ([], Inl err)
      | None \<Rightarrow>
          (let backup_selected = provider_map backup_provider;
               backup_model = backup_model_for backup_provider;
               c = Call backup_model message backup_selected use_stream timeout
           in case create c of
                Inl e \<Rightarrow> ([c], Inl e)
              | Inr backup_response \<Rightarrow>
                  (case py_print (line_126 backup_provider) of
                     Some err \<Rightarrow> ([c], Inl err)
                   | None \<Rightarrow>
                       ([c], Inr (answered use_stream backup_provider backup_model
                                   backup_response)))))"

text \<open>
  Lines 105-156: the loop over the backups that remain, then the fall-through. The
  \<open>timeout\<close> is the variable as the first \<open>try\<close> block left it. The \<open>print\<close> of line
  146 stands in the handler, outside every \<open>try\<close>: an exception it raises leaves the
  function.
\<close>

fun try_backups ::
  "provider_cls create \<Rightarrow> pystr \<Rightarrow> pystr \<Rightarrow> bool \<Rightarrow> pyfloat \<Rightarrow> pystr list \<Rightarrow>
     provider_cls call list \<times> (exn + result)" where
  "try_backups create message specific_provider use_stream timeout [] =
     ([], Inr (exhausted specific_provider))"
| "try_backups create message specific_provider use_stream timeout (backup_provider # rest) =
     (if backup_provider \<noteq> specific_provider then
        (case attempt_backup create message backup_provider use_stream timeout of
           (made, Inr res) \<Rightarrow> (made, Inr res)
         | (made, Inl backup_error) \<Rightarrow>
             (case py_print (line_146 backup_provider (str_exn backup_error)) of
                Some err \<Rightarrow> (made, Inl err)
              | None \<Rightarrow>
                  (let (cs, res) = try_backups create message specific_provider use_stream
                                     timeout rest
                   in (made @ cs, res))))
      else try_backups create message specific_provider use_stream timeout rest)"

text \<open>
  Lines 17-156. The \<open>print\<close> of line 100 stands in the handler of the first attempt,
  outside every \<open>try\<close>: an exception it raises leaves the function before any backup
  is tried.
\<close>

definition get_chat_response ::
  "provider_cls create \<Rightarrow> pystr \<Rightarrow> pystr option \<Rightarrow> bool \<Rightarrow> pyfloat \<Rightarrow>
     provider_cls call list \<times> (exn + result)" where
  "get_chat_response create message specific_provider0 use_stream timeout0 =
     (let specific_provider =
            (case specific_provider0 of None \<Rightarrow> ascii ''Qwen_Qwen_2_72B'' | Some s \<Rightarrow> s);
          selected_provider =
            (case provider_map specific_provider of None \<Rightarrow> Qwen_Qwen_2_72B | Some p \<Rightarrow> p);
          mdl = model_for specific_provider;
          timeout = floor_timeout specific_provider timeout0;
          c = Call mdl message (Some selected_provider) use_stream timeout
      in case create c of
           Inr r \<Rightarrow> ([c], Inr (answered use_stream specific_provider mdl r))
         | Inl e \<Rightarrow>
             (case py_print (line_100 specific_provider (str_exn e)) of
                Some err \<Rightarrow> ([c], Inl err)
              | None \<Rightarrow>
                  (let (cs, res) = try_backups create message specific_provider use_stream
                                     timeout backup_providers
                   in (c # cs, res))))"

text \<open>
  The invocations of lines 72-78 and 118-124, in the order in which the function makes
  them when none of them answers.
\<close>

definition attempts :: "pystr \<Rightarrow> pystr option \<Rightarrow> bool \<Rightarrow> pyfloat \<Rightarrow> provider_cls call list" where
  "attempts message specific_provider0 use_stream timeout0 =
     (let specific_provider =
            (case specific_provider0 of None \<Rightarrow> ascii ''Qwen_Qwen_2_72B'' | Some s \<Rightarrow> s);
          selected_provider =
            (case provider_map specific_provider of None \<Rightarrow> Qwen_Qwen_2_72B | Some p \<Rightarrow> p);
          timeout = floor_timeout specific_provider timeout0
      in Call (model_for specific_provider) message (Some selected_provider) use_stream timeout
         # map (\<lambda>b. Call (backup_model_for b) message (provider_map b) use_stream timeout)
             (filter (\<lambda>b. b \<noteq> specific_provider) backup_providers))"

text \<open>Every invocation of a list raises, with a text that can be printed.\<close>

definition all_raise :: "'p create \<Rightarrow> 'p call list \<Rightarrow> bool" where
  "all_raise create cs = list_all (\<lambda>c. case create c of Inl e \<Rightarrow> printable (str_exn e) | Inr r \<Rightarrow> False) cs"

subsection \<open>get\_demo\_response\<close>

text \<open>Line 162, first keyword.\<close>

definition kw_privet :: pystr where
  "kw_privet =
     [1087, 1088, 1080, 1074, 1077, 1090]"

text \<open>Line 162, fourth keyword.\<close>

definition kw_zdravstvuj :: pystr where
  "kw_zdravstvuj =
     [1079, 1076, 1088, 1072, 1074, 1089, 1090, 1074, 1091, 1081]"

text \<open>Line 164, the four keywords.\<close>

definition kw_chto_takoe :: pystr where
  "kw_chto_takoe =
     [1095, 1090, 1086, 32, 1090, 1072, 1082, 1086, 1077]"

definition kw_rasskazhi_o :: pystr where
  "kw_rasskazhi_o =
     [1088, 1072, 1089, 1089, 1082, 1072, 1078, 1080, 32, 1086]"

definition kw_chto_ty :: pystr where
  "kw_chto_ty =
     [1095, 1090, 1086, 32, 1090, 1099]"

definition kw_o_sebe :: pystr where
  "kw_o_sebe =
     [1086, 32, 1089, 1077, 1073, 1077]"

text \<open>Line 166, the three keywords.\<close>

definition kw_sozdaj :: pystr where
  "kw_sozdaj =
     [1089, 1086, 1079, 1076, 1072, 1081]"

definition kw_narisuj :: pystr where
  "kw_narisuj =
     [1085, 1072, 1088, 1080, 1089, 1091, 1081]"

definition kw_sgeneriruj :: pystr where
  "kw_sgeneriruj =
     [1089, 1075, 1077, 1085, 1077, 1088, 1080, 1088, 1091, 1081]"

text \<open>Line 163.\<close>

definition demo_greeting :: pystr where
  "demo_greeting =
     [1055, 1088, 1080, 1074, 1077, 1090, 33, 32, 1056, 1072, 1076, 32, 1074, 1072, 1089,
      32, 1074, 1080, 1076, 1077, 1090, 1100, 33, 32, 128522, 32, 1071, 32, 66, 79, 79,
      79, 77, 69, 82, 65, 78, 71, 83, 32, 65, 73, 32, 45, 32, 1074, 1072, 1096, 32, 1090,
      1074, 1086, 1088, 1095, 1077, 1089, 1082, 1080, 1081, 32, 1087, 1086, 1084, 1086,
      1097, 1085, 1080, 1082, 46, 32, 1063, 1077, 1084, 32, 1084, 1086, 1075, 1091, 32,
      1087, 1086, 1084, 1086, 1095, 1100, 63]"

text \<open>Line 165.\<close>

definition demo_about :: pystr where
  "demo_about =
     [1055, 1088, 1080, 1074, 1077, 1090, 33, 32, 1052, 1077, 1085, 1103, 32, 1079, 1086,
      1074, 1091, 1090, 32, 66, 79, 79, 79, 77, 69, 82, 65, 78, 71, 83, 32, 65, 73, 44,
      32, 1080, 32, 1103, 32, 1074, 1072, 1096, 32, 1090, 1074, 1086, 1088, 1095, 1077,
      1089, 1082, 1080, 1081, 32, 1087, 1086, 1084, 1086, 1097, 1085, 1080, 1082, 33, 10,
      10, 128640, 32, 42, 42, 1052, 1086, 1080, 32, 1089, 1091, 1087, 1077, 1088, 1089,
      1087, 1086, 1089, 1086, 1073, 1085, 1086, 1089, 1090, 1080, 58, 42, 42, 10, 8226,
      32, 1057, 1086, 1079, 1076, 1072, 1102, 32, 1091, 1085, 1080, 1082, 1072, 1083,
      1100, 1085, 1099, 1077, 32, 1080, 1079, 1086, 1073, 1088, 1072, 1078, 1077, 1085,
      1080, 1103, 32, 1087, 1086, 32, 1086, 1087, 1080, 1089, 1072, 1085, 1080, 1102, 10,
      8226, 32, 1055, 1088, 1077, 1074, 1088, 1072, 1097, 1072, 1102, 32, 1082, 1072,
      1088, 1090, 1080, 1085, 1082, 1080, 32, 1074, 32, 1074, 1077, 1082, 1090, 1086,
      1088, 1085, 1091, 1102, 32, 1075, 1088, 1072, 1092, 1080, 1082, 1091, 10, 8226, 32,
      1043, 1086, 1090, 1086, 1074, 1083, 1102, 32, 1076, 1080, 1079, 1072, 1081, 1085,
      1099, 32, 1076, 1083, 1103, 32, 1074, 1099, 1096, 1080, 1074, 1072, 1083, 1100,
      1085, 1099, 1093, 32, 1084, 1072, 1096, 1080, 1085, 10, 8226, 32, 1050, 1086, 1085,
      1089, 1091, 1083, 1100, 1090, 1080, 1088, 1091, 1102, 32, 1087, 1086, 32, 1090,
      1074, 1086, 1088, 1095, 1077, 1089, 1082, 1080, 1084, 32, 1087, 1088, 1086, 1077,
      1082, 1090, 1072, 1084, 10, 8226, 32, 1055, 1088, 1086, 1089, 1090, 1086, 32, 1093,
      1086, 1088, 1086, 1096, 1086, 32, 1086, 1073, 1097, 1072, 1102, 1089, 1100, 32,
      1085, 1072, 32, 1083, 1102, 1073, 1099, 1077, 32, 1090, 1077, 1084, 1099, 33, 10,
      10, 1063, 1077, 1084, 32, 1084, 1086, 1075, 1091, 32, 1087, 1086, 1084, 1086, 1095,
      1100, 63]"

text \<open>Line 167.\<close>

definition demo_create :: pystr where
  "demo_create =
     [1054, 1090, 1083, 1080, 1095, 1085, 1086, 33, 32, 1054, 1087, 1080, 1096, 1080,
      1090, 1077, 32, 1087, 1086, 1076, 1088, 1086, 1073, 1085, 1077, 1077, 32, 1095,
      1090, 1086, 32, 1074, 1099, 32, 1093, 1086, 1090, 1080, 1090, 1077, 32, 1089, 1086,
      1079, 1076, 1072, 1090, 1100, 44, 32, 1080, 32, 1103, 32, 1089, 1075, 1077, 1085,
      1077, 1088, 1080, 1088, 1091, 1102, 32, 1076, 1083, 1103, 32, 1074, 1072, 1089, 32,
      1091, 1085, 1080, 1082, 1072, 1083, 1100, 1085, 1086, 1077, 32, 1080, 1079, 1086,
      1073, 1088, 1072, 1078, 1077, 1085, 1080, 1077, 33, 32, 127912]"

text \<open>Line 169.\<close>

definition demo_other :: pystr where
  "demo_other =
     [1055, 1086, 1085, 1103, 1083, 33, 32, 1063, 1077, 1084, 32, 1082, 1086, 1085, 1082,
      1088, 1077, 1090, 1085, 1086, 32, 1084, 1086, 1075, 1091, 32, 1087, 1086, 1084,
      1086, 1095, 1100, 63, 32, 1043, 1086, 1090, 1086, 1074, 32, 1089, 1086, 1079, 1076,
      1072, 1090, 1100, 32, 1080, 1079, 1086, 1073, 1088, 1072, 1078, 1077, 1085, 1080,
      1103, 44, 32, 1074, 1077, 1082, 1090, 1086, 1088, 1080, 1079, 1086, 1074, 1072,
      1090, 1100, 32, 1082, 1072, 1088, 1090, 1080, 1085, 1082, 1080, 32, 1080, 1083,
      1080, 32, 1087, 1088, 1086, 1089, 1090, 1086, 32, 1087, 1086, 1073, 1086, 1083,
      1090, 1072, 1090, 1100, 33, 32, 128522]"

definition get_demo_response :: "pystr \<Rightarrow> pystr" where
  "get_demo_response message =
     (let message_lower = str_lower message in
      if any_in [kw_privet, ascii ''hello'', ascii ''hi'', kw_zdravstvuj] message_lower
        then demo_greeting
      else if any_in [kw_chto_takoe, kw_rasskazhi_o, kw_chto_ty, kw_o_sebe] message_lower
        then demo_about
      else if any_in [kw_sozdaj, kw_narisuj, kw_sgeneriruj] message_lower
        then demo_create
      else demo_other)"

subsection \<open>stream\_response\_generator\<close>

text \<open>
  A frame is \<open>data: <json>\<close> followed by a blank line; the model keeps the dictionary that
  is serialised. A value read with \<open>result.get\<close> may be \<open>None\<close>.
\<close>

datatype frame =
  Status_start "pystr option"
  | Error_event pystr
  | Chunk_event pystr "pystr option"
  | Done_event "pystr option" "pystr option" "pystr option" elapsed_val
  | Error_text "pystr option" pystr pystr
  | Text_event "pystr option" "pystr option"

definition is_error_event :: "frame \<Rightarrow> bool" where
  "is_error_event f = (case f of Error_event _ \<Rightarrow> True | Error_text _ _ _ \<Rightarrow> True | _ \<Rightarrow> False)"

definition is_chunk_event :: "frame \<Rightarrow> bool" where
  "is_chunk_event f = (case f of Chunk_event _ _ \<Rightarrow> True | _ \<Rightarrow> False)"

text \<open>Line 184.\<close>

definition html_msg :: pystr where
  "html_msg =
     [1055, 1088, 1086, 1074, 1072, 1081, 1076, 1077, 1088, 32, 1074, 1077, 1088, 1085,
      1091, 1083, 32, 72, 84, 77, 76, 32, 1074, 1084, 1077, 1089, 1090, 1086, 32, 1090,
      1077, 1082, 1089, 1090, 1072, 32, 8212, 32, 1074, 1086, 1079, 1084, 1086, 1078,
      1085, 1086, 44, 32, 1079, 1072, 1073, 1083, 1086, 1082, 1080, 1088, 1086, 1074,
      1072, 1085]"

text \<open>Line 183: \<open>"<html" in chunk.lower()\<close>.\<close>

definition html_in :: "pystr \<Rightarrow> bool" where
  "html_in chunk = sublist (ascii ''<html'') (str_lower chunk)"

text \<open>
  Lines 182-189: the loop over the chunks that the iteration produces, with the text
  accumulated so far. It returns the frames, the accumulated text and whether it left
  through \<open>break\<close>.
\<close>

fun relay_chunks :: "pystr option \<Rightarrow> pystr list \<Rightarrow> pystr \<Rightarrow> frame list \<times> pystr \<times> bool" where
  "relay_chunks prov [] full_response = ([], full_response, False)"
| "relay_chunks prov (chunk # rest) full_response =
     (if html_in chunk then ([Error_event html_msg], full_response, True)
      else (let (frames, full, broke) = relay_chunks prov rest (full_response @ chunk)
            in (Chunk_event chunk prov # frames, full, broke)))"

text \<open>Lines 212-219: the handler of an exception raised anywhere in the generator.\<close>

definition except_frames :: "exn \<Rightarrow> pystr \<Rightarrow> frame list" where
  "except_frames e message =
     (case e of Exception s \<Rightarrow>
        (let demo_response = get_demo_response message in
         [Error_event s,
          Text_event (Some demo_response) (Some (ascii ''BOOOMERANGS-Error'')),
          Done_event (Some demo_response) (Some (ascii ''BOOOMERANGS-Error''))
            (Some (ascii ''error-mode'')) Wall_clock]))"

text \<open>
  Lines 171-219. The logging calls do not raise. When \<open>get_chat_response\<close> raises, the
  handler runs before any frame was emitted.
\<close>

definition stream_response_generator ::
  "provider_cls create \<Rightarrow> pystr \<Rightarrow> pystr option \<Rightarrow> pyfloat \<Rightarrow>
     provider_cls call list \<times> frame list" where
  "stream_response_generator create message prov timeout =
     (let (calls, outcome) = get_chat_response create message prov True timeout
      in (calls,
          (case outcome of
             Inl e \<Rightarrow> except_frames e message
           | Inr result \<Rightarrow>
               (let start = Status_start (provider result) in
                case (streaming result, response_stream result) of
                  (Some True, Some r) \<Rightarrow>
                    (let (frames, full_response, broke) =
                           relay_chunks (provider result) (chunks r) [];
                         done = Done_event (Some full_response) (provider result)
                                  (model result) Wall_clock
                     in if broke then start # frames @ [done]
                        else (case ending r of
                                StopIteration \<Rightarrow> start # frames @ [done]
                              | Raise e \<Rightarrow> start # frames @ except_frames e message))
                | _ \<Rightarrow>
                    (if error result \<noteq> None then
                       (let demo_response = get_demo_response message in
                        [start,
                         Error_text (error result) demo_response (ascii ''BOOOMERANGS-Demo''),
                         Done_event (Some demo_response) (Some (ascii ''BOOOMERANGS-Demo''))
                           (Some (ascii ''fallback-mode'')) Wall_clock])
                     else
                       [start,
                        Text_event (response result) (provider result),
                        Done_event (response result) (provider result) (model result)
                          (case elapsed result of None \<Rightarrow> Wall_clock | Some t \<Rightarrow> t)])))))"

subsection \<open>The endpoints /python/chat and /python/chat/stream\<close>

text \<open>
  The request body, as the interface documents it: \<open>message\<close> and \<open>provider\<close> are absent,
  \<open>null\<close> or a string. The \<open>timeout\<close> field is given by what line 333 makes of it:
  it is absent; or \<open>float\<close> converts it and the quotient by 1000, computed in floating
  point, is the float \<open>t\<close> (\<open>Quotient t\<close>: for 500 it is 0.5, for \<open>5e-324\<close>, which
  underflows, 0.0, for \<open>NaN\<close> it is \<open>nan\<close>); or \<open>float\<close> raises \<open>ValueError\<close> or
  \<open>TypeError\<close>; or it is an integer so large that \<open>float\<close> raises \<open>OverflowError\<close>.
\<close>

datatype json_str = Absent | Null | Str pystr

datatype json_num = No_number | Quotient pyfloat | Not_a_number | Too_large

datatype request =
  Request (req_message: json_str) (req_provider: json_str) (req_timeout: json_num)

text \<open>\<open>data.get(key, default)\<close>.\<close>

definition get_field :: "json_str \<Rightarrow> pystr option \<Rightarrow> pystr option" where
  "get_field j dflt = (case j of Absent \<Rightarrow> dflt | Null \<Rightarrow> None | Str s \<Rightarrow> Some s)"

text \<open>
  A response body: a result dictionary, the dictionary with the single key \<open>error\<close>,
  the dictionary with the keys \<open>error\<close>, \<open>response\<close> and \<open>provider\<close>, a stream of frames,
  or the page that the web framework sends for an exception that no handler caught.
\<close>

datatype http_body =
  Json_result result
  | Json_error pystr
  | Json_failure pystr pystr pystr
  | Event_stream "frame list"
  | Internal_server_error

text \<open>Lines 233 and 340, the text of the 400 response.\<close>

definition missing_msg :: pystr where
  "missing_msg =
     [1054, 1090, 1089, 1091, 1090, 1089, 1090, 1074, 1091, 1077, 1090, 32, 1089, 1086,
      1086, 1073, 1097, 1077, 1085, 1080, 1077]"

text \<open>Line 242, the text before the exception.\<close>

definition chat_failure_head :: pystr where
  "chat_failure_head =
     [1054, 1096, 1080, 1073, 1082, 1072, 32, 65, 73, 32, 1087, 1088, 1086, 1074, 1072,
      1081, 1076, 1077, 1088, 1072, 58, 32]"

text \<open>
  Lines 227-244. \<open>get_chat_response\<close> is the one operation between \<open>try\<close> and \<open>return\<close>
  that can raise; the handler answers it with status 500.
\<close>

definition chat :: "provider_cls create \<Rightarrow> request \<Rightarrow> provider_cls call list \<times> http_body \<times> nat" where
  "chat create req =
     (let message = get_field (req_message req) (Some []);
          provider_name = get_field (req_provider req) (Some (ascii ''Qwen_Qwen_2_72B''))
      in case message of
           None \<Rightarrow> ([], Json_error missing_msg, 400)
         | Some m \<Rightarrow>
             (if m = [] then ([], Json_error missing_msg, 400)
              else (case get_chat_response create m provider_name False (Num 20) of
                      (calls, Inr result) \<Rightarrow> (calls, Json_result result, 200)
                    | (calls, Inl e) \<Rightarrow>
                        (calls,
                         Json_failure (str_exn e) (chat_failure_head @ str_exn e)
                           (ascii ''error''),
                         500))))"

text \<open>
  Lines 332-337. The handler catches \<open>ValueError\<close> and \<open>TypeError\<close> only. Line 333
  computes \<open>20000 / 1000\<close> for an absent field, which is 20.
\<close>

definition stream_timeout :: "json_num \<Rightarrow> exn + pyfloat" where
  "stream_timeout j =
     (case j of
        Not_a_number \<Rightarrow> Inr (Num 20)
      | Too_large \<Rightarrow> Inl (Exception (ascii ''int too large to convert to float''))
      | _ \<Rightarrow>
          (let timeout = (case j of Quotient t \<Rightarrow> t | _ \<Rightarrow> Num 20)
           in if py_le timeout (Num 0) \<or> py_lt (Num 60) timeout then Inr (Num 20)
              else Inr timeout))"

text \<open>
  Lines 329-350. The timeout is computed before the message is looked at, and no
  handler encloses an \<open>OverflowError\<close>.
\<close>

definition chat_stream ::
  "provider_cls create \<Rightarrow> request \<Rightarrow> provider_cls call list \<times> http_body \<times> nat" where
  "chat_stream create req =
     (let message = get_field (req_message req) (Some []);
          prov = get_field (req_provider req) None
      in case stream_timeout (req_timeout req) of
           Inl e \<Rightarrow> ([], Internal_server_error, 500)
         | Inr timeout \<Rightarrow>
             (case message of
                None \<Rightarrow> ([], Json_error missing_msg, 400)
              | Some m \<Rightarrow>
                  (if m = [] then ([], Json_error missing_msg, 400)
                   else (let (calls, frames) =
                               stream_response_generator create m prov timeout
                         in (calls, Event_stream frames, 200)))))"

section \<open>src/server/stream\_server.py: test\_provider\<close>

text \<open>
  The registry \<open>providers\<close> is built once, when the module is loaded, from the attributes
  of the external library; it is a parameter, a finite map from names to capabilities
  of any type.
\<close>

datatype probe_json =
  Probe_status pystr pystr
  | Probe_ok pystr pystr bool pystr
  | Probe_failed pystr pystr pystr bool

text \<open>Lines 191, 206 and 216 of stream\_server.py: the texts around the provider name.\<close>

definition prov_head :: pystr where
  "prov_head =
     [1055, 1088, 1086, 1074, 1072, 1081, 1076, 1077, 1088, 32]"

definition not_found_tail :: pystr where
  "not_found_tail =
     [32, 1085, 1077, 32, 1085, 1072, 1081, 1076, 1077, 1085]"

definition available_tail :: pystr where
  "available_tail =
     [32, 1076, 1086, 1089, 1090, 1091, 1087, 1077, 1085]"

definition probe_err_head :: pystr where
  "probe_err_head =
     [1054, 1096, 1080, 1073, 1082, 1072, 32, 1087, 1088, 1080, 32, 1087, 1088, 1086,
      1074, 1077, 1088, 1082, 1077, 32, 1087, 1088, 1086, 1074, 1072, 1081, 1076, 1077,
      1088, 1072, 32]"

definition test_provider ::
  "(pystr \<rightharpoonup> 'p) \<Rightarrow> 'p create \<Rightarrow> pystr \<Rightarrow> 'p call list \<times> probe_json" where
  "test_provider providers create provider_name =
     (case providers provider_name of
        None \<Rightarrow> ([], Probe_status (ascii ''error'') (prov_head @ provider_name @ not_found_tail))
      | Some p \<Rightarrow>
          (let c = Call (ascii ''gpt-3.5-turbo'') (ascii ''Say just one word: Test'') (Some p)
                     False (Num 5)
           in case create c of
                Inr r \<Rightarrow>
                  ([c], Probe_ok (ascii ''ok'') (prov_head @ provider_name @ available_tail)
                          False (take 100 (as_str r)))
              | Inl (Exception error_str) \<Rightarrow>
                  ([c], Probe_failed (ascii ''error'') (probe_err_head @ provider_name)
                          error_str
                          (any_in [ascii ''api_key'', ascii ''apikey'', ascii ''key'',
                                   ascii ''token''] (str_lower error_str)))))"

section \<open>Sample environments\<close>

text \<open>Every invocation raises.\<close>

definition all_down :: "'p create" where
  "all_down c = Inl (Exception (ascii ''connection refused''))"

text \<open>Every invocation answers; iterated, the answer has an HTML page as second chunk.\<close>

definition all_up :: "'p create" where
  "all_up c =
     Inr (Response (ascii ''ok'') [ascii ''ab'', ascii ''x<HtMl>'', ascii ''cd''] StopIteration)"

text \<open>Every invocation returns an iterator that raises before its first chunk.\<close>

definition broken_stream :: "'p create" where
  "broken_stream c = Inr (Response [] [] (Raise (Exception (ascii ''boom''))))"

text \<open>
  Every invocation raises; the text of the exception of \<open>Qwen_Qwen_2_5M\<close>, the last
  backup, holds a lone surrogate.
\<close>

definition last_garbled :: "provider_cls create" where
  "last_garbled c =
     Inl (Exception (if c_provider c = Some Qwen_Qwen_2_5M then [55296]
                     else ascii ''connection refused''))"

section \<open>Properties of the boundary scan\<close>

lemma set_scan_row:
  "set (scan_row binary y xs paths) =
     set paths \<union> {(x, y) | x. x \<in> set xs \<and> edge_at binary y x}"
  by (induction xs arbitrary: paths) (auto simp: edge_at_def)

lemma set_scan_rows:
  "set (scan_rows binary xrange ys paths) =
     set paths \<union> {(x, y) | x y. y \<in> set ys \<and> x \<in> set xrange \<and> edge_at binary y x}"
  by (induction ys arbitrary: paths) (auto simp: set_scan_row)

lemma binarize_nth:
  assumes "rectangular g" "y < size_height g" "x < size_width g"
  shows "binarize (img_array g) threshold ! y ! x = (uint (img_array g ! y ! x) < threshold)"
proof -
  from assms have ylen: "y < length (img_array g)"
    by (simp add: rectangular_def)
  with assms have "length (img_array g ! y) = size_width g"
    by (simp add: rectangular_def list_all_length)
  with assms ylen show ?thesis
    by (simp add: binarize_def)
qed

text \<open>
  C10. Every coordinate pair \<open>(x, y)\<close> that \<open>simple_trace\<close> returns lies strictly inside
  the image (\<open>1 \<le> x \<le> width - 2\<close>, \<open>1 \<le> y \<le> height - 2\<close>, hence on no border row or
  column), its gray value is strictly below the threshold, and one of its four orthogonal
  neighbours is not below the threshold.
\<close>

theorem simple_trace_interior_edges:
  assumes rect: "rectangular g"
    and res: "simple_trace g threshold = (paths, w, h)"
    and mem: "(x, y) \<in> set paths"
  shows "1 \<le> x \<and> x + 2 \<le> w \<and> 1 \<le> y \<and> y + 2 \<le> h \<and>
         w = size_width g \<and> h = size_height g \<and>
         x \<noteq> 0 \<and> x + 1 \<noteq> w \<and> y \<noteq> 0 \<and> y + 1 \<noteq> h \<and>
         uint (img_array g ! y ! x) < threshold \<and>
         (\<not> uint (img_array g ! (y - 1) ! x) < threshold \<or>
          \<not> uint (img_array g ! (y + 1) ! x) < threshold \<or>
          \<not> uint (img_array g ! y ! (x - 1)) < threshold \<or>
          \<not> uint (img_array g ! y ! (x + 1)) < threshold)"
proof -
  from res have w: "w = size_width g" and h: "h = size_height g"
    and paths: "paths = scan_rows (binarize (img_array g) threshold)
                          [1..<size_width g - 1] [1..<size_height g - 1] []"
    by (auto simp: simple_trace_def Let_def)
  from mem paths have xr: "1 \<le> x" "x < size_width g - 1"
    and yr: "1 \<le> y" "y < size_height g - 1"
    and edge: "edge_at (binarize (img_array g) threshold) y x"
    by (auto simp: set_scan_rows)
  from xr yr have inb: "y < size_height g" "y - 1 < size_height g" "y + 1 < size_height g"
    "x < size_width g" "x - 1 < size_width g" "x + 1 < size_width g"
    by simp_all
  have c: "binarize (img_array g) threshold ! y ! x = (uint (img_array g ! y ! x) < threshold)"
    and u: "binarize (img_array g) threshold ! (y - 1) ! x = (uint (img_array g ! (y - 1) ! x) < threshold)"
    and d: "binarize (img_array g) threshold ! (y + 1) ! x = (uint (img_array g ! (y + 1) ! x) < threshold)"
    and l: "binarize (img_array g) threshold ! y ! (x - 1) = (uint (img_array g ! y ! (x - 1)) < threshold)"
    and r: "binarize (img_array g) threshold ! y ! (x + 1) = (uint (img_array g ! y ! (x + 1)) < threshold)"
    using rect inb by (simp_all add: binarize_nth)
  from edge have "uint (img_array g ! y ! x) < threshold"
    and "\<not> uint (img_array g ! (y - 1) ! x) < threshold \<or>
         \<not> uint (img_array g ! (y + 1) ! x) < threshold \<or>
         \<not> uint (img_array g ! y ! (x - 1)) < threshold \<or>
         \<not> uint (img_array g ! y ! (x + 1)) < threshold"
    unfolding edge_at_def c u d l r by simp_all
  moreover from xr yr have "1 \<le> x \<and> x + 2 \<le> w \<and> 1 \<le> y \<and> y + 2 \<le> h \<and>
      x \<noteq> 0 \<and> x + 1 \<noteq> w \<and> y \<noteq> 0 \<and> y + 1 \<noteq> h"
    unfolding w h by auto
  ultimately show ?thesis using w h by simp
qed

lemma sample_trace: "simple_trace sample_image 128 = ([(1, 1), (2, 1)], 4, 3)"
  by code_simp

theorem simple_trace_interior_edges_witness:
  "rectangular sample_image \<and>
   simple_trace sample_image 128 = ([(1, 1), (2, 1)], 4, 3) \<and>
   (2, 1) \<in> set [(1 :: nat, 1 :: nat), (2, 1)] \<and>
   uint (img_array sample_image ! 1 ! 2) < 128 \<and>
   (2 :: nat) + 2 \<le> 4"
proof -
  have rect: "rectangular sample_image"
    by (simp add: rectangular_def sample_image_def)
  have mem: "(2, 1) \<in> set [(1 :: nat, 1 :: nat), (2, 1)]"
    by simp
  from simple_trace_interior_edges [OF rect sample_trace mem] rect sample_trace mem
  show ?thesis by simp
qed

section \<open>Properties of the dispatcher\<close>

lemma printable_append [simp]: "printable (a @ b) \<longleftrightarrow> printable a \<and> printable b"
  by (simp add: printable_def)

lemma printable_fixed:
  "printable line_100_head" "printable line_108_head" "printable line_126_head"
  "printable line_126_tail" "printable line_146_head" "printable (ascii '': '')"
  by (simp_all add: printable_def is_surrogate_def line_100_head_def line_108_head_def
      line_126_head_def line_126_tail_def line_146_head_def ascii_def)

lemma printable_backup_providers: "b \<in> set backup_providers \<Longrightarrow> printable b"
  by (auto simp: backup_providers_def printable_def is_surrogate_def ascii_def)

lemma py_print_printable: "printable s \<Longrightarrow> py_print s = None"
  by (simp add: py_print_def)

lemma try_backups_all_failed:
  assumes "\<forall>b \<in> set bs. printable b"
    and "all_raise create
           (map (\<lambda>b. Call (backup_model_for b) message (provider_map b) use_stream timeout)
              (filter (\<lambda>b. b \<noteq> sp) bs))"
  shows "try_backups create message sp use_stream timeout bs =
           (map (\<lambda>b. Call (backup_model_for b) message (provider_map b) use_stream timeout)
              (filter (\<lambda>b. b \<noteq> sp) bs),
            Inr (exhausted sp))"
  using assms
proof (induction bs)
  case Nil
  then show ?case by simp
next
  case (Cons b bs)
  show ?case
  proof (cases "b = sp")
    case True
    with Cons show ?thesis by simp
  next
    case False
    let ?c = "Call (backup_model_for b) message (provider_map b) use_stream timeout"
    from False Cons.prems(2) obtain e where e: "create ?c = Inl e" "printable (str_exn e)"
      by (auto simp: all_raise_def split: sum.splits)
    from Cons.prems(1) have pb: "printable b"
      by simp
    from e pb have att: "attempt_backup create message b use_stream timeout = ([?c], Inl e)"
      by (simp add: attempt_backup_def line_108_def printable_fixed py_print_printable Let_def)
    from e pb have pr: "py_print (line_146 b (str_exn e)) = None"
      by (simp add: line_146_def printable_fixed py_print_printable)
    from False Cons.prems have rest: "try_backups create message sp use_stream timeout bs =
        (map (\<lambda>b. Call (backup_model_for b) message (provider_map b) use_stream timeout)
           (filter (\<lambda>b. b \<noteq> sp) bs),
         Inr (exhausted sp))"
      by (intro Cons.IH) (simp_all add: all_raise_def)
    from False att pr rest show ?thesis by simp
  qed
qed

lemma get_chat_response_all_failed:
  assumes sp: "sp = (case sp0 of None \<Rightarrow> ascii ''Qwen_Qwen_2_72B'' | Some s \<Rightarrow> s)"
    and psp: "printable sp"
    and fail: "all_raise create (attempts message sp0 use_stream timeout)"
  shows "get_chat_response create message sp0 use_stream timeout =
           (attempts message sp0 use_stream timeout, Inr (exhausted sp))"
proof -
  let ?t = "floor_timeout sp timeout"
  let ?c = "Call (model_for sp) message
              (Some (case provider_map sp of None \<Rightarrow> Qwen_Qwen_2_72B | Some p \<Rightarrow> p))
              use_stream ?t"
  let ?bs = "map (\<lambda>b. Call (backup_model_for b) message (provider_map b) use_stream ?t)
               (filter (\<lambda>b. b \<noteq> sp) backup_providers)"
  have att: "attempts message sp0 use_stream timeout = ?c # ?bs"
    by (simp add: attempts_def Let_def sp)
  with fail obtain e where e: "create ?c = Inl e" "printable (str_exn e)"
    by (auto simp: all_raise_def split: sum.splits)
  from att fail have "all_raise create ?bs"
    by (simp add: all_raise_def)
  with printable_backup_providers
  have tb: "try_backups create message sp use_stream ?t backup_providers = (?bs, Inr (exhausted sp))"
    by (intro try_backups_all_failed) simp_all
  from e psp have pr: "py_print (line_100 sp (str_exn e)) = None"
    by (simp add: line_100_def printable_fixed py_print_printable)
  have "get_chat_response create message sp0 use_stream timeout = (?c # ?bs, Inr (exhausted sp))"
    unfolding get_chat_response_def Let_def sp [symmetric]
    by (simp add: e pr tb)
  with att show ?thesis by simp
qed

text \<open>
  C1, at the request \<open>{"message": "hi", "provider": "\ud800"}\<close> when no provider answers:
  the first attempt raises, the \<open>print\<close> of line 100 cannot encode the provider name,
  and \<open>get_chat_response\<close> raises after one invocation instead of returning the
  soft-failure dictionary. The same happens after all five attempts have failed, when
  the text of the last exception cannot be encoded by the \<open>print\<close> of line 146.
\<close>

theorem exhaustion_raises_on_unprintable_text:
  "get_chat_response all_down (ascii ''hi'') (Some [55296]) False (Num 20) =
     ([Call (ascii ''gpt-4o-mini'') (ascii ''hi'') (Some Qwen_Qwen_2_72B) False (Num 20)],
      Inl (Exception (encode_error (line_100 [55296] (ascii ''connection refused''))))) \<and>
   map c_provider
     (fst (get_chat_response last_garbled (ascii ''hi'') (Some (ascii ''FreeGpt'')) False (Num 20))) =
     [Some FreeGpt, Some Qwen_Qwen_2_72B, Some Qwen_Qwen_2_5_Max, Some Qwen_Qwen_2_5,
      Some Qwen_Qwen_2_5M] \<and>
   all_raise last_garbled (butlast
     (fst (get_chat_response last_garbled (ascii ''hi'') (Some (ascii ''FreeGpt'')) False (Num 20)))) \<and>
   snd (get_chat_response last_garbled (ascii ''hi'') (Some (ascii ''FreeGpt'')) False (Num 20)) =
     Inl (Exception (encode_error (line_146 (ascii ''Qwen_Qwen_2_5M'') [55296])))"
  by (simp add: get_chat_response_def all_down_def last_garbled_def Let_def
      backup_providers_def floor_timeout_def provider_map_def model_for_def
      backup_model_for_def attempt_backup_def py_print_def printable_def is_surrogate_def
      line_100_def line_108_def line_146_def line_100_head_def line_108_head_def
      line_146_head_def all_raise_def ascii_def)

text \<open>
  C2, at the request \<open>{"message": "hi", "provider": "FreeGpt"}\<close> to \<open>/python/chat\<close> when
  no provider answers. The backups are tried once each, in the order of the list, but
  each with the timeout of the first attempt, 20 seconds: the backup
  \<open>Qwen_Qwen_2_72B\<close>, whose own floor gives 45 seconds, and the backups
  \<open>Qwen_Qwen_2_5_Max\<close> and \<open>Qwen_Qwen_2_5\<close>, whose own floor gives 30, are invoked
  with 20.
\<close>

theorem backup_timeout_not_refloored:
  "map (\<lambda>c. (c_provider c, c_timeout c))
     (fst (chat all_down (Request (Str (ascii ''hi'')) (Str (ascii ''FreeGpt'')) No_number))) =
     [(Some FreeGpt, Num 20), (Some Qwen_Qwen_2_72B, Num 20), (Some Qwen_Qwen_2_5_Max, Num 20),
      (Some Qwen_Qwen_2_5, Num 20), (Some Qwen_Qwen_2_5M, Num 20)] \<and>
   floor_timeout (ascii ''Qwen_Qwen_2_72B'') (Num 20) = Num 45 \<and>
   floor_timeout (ascii ''Qwen_Qwen_2_5_Max'') (Num 20) = Num 30 \<and>
   floor_timeout (ascii ''Qwen_Qwen_2_5'') (Num 20) = Num 30"
  by (simp add: chat_def get_field_def get_chat_response_def all_down_def Let_def
      backup_providers_def floor_timeout_def py_max_def provider_map_def
      attempt_backup_def py_print_def printable_def is_surrogate_def
      line_100_def line_108_def line_146_def line_100_head_def line_108_head_def
      line_146_head_def ascii_def)

text \<open>
  C3, at the call \<open>get_chat_response("hi", "Blackbox")\<close> when the default class answers.
  \<open>Blackbox\<close> is no key of the provider table; the class \<open>Qwen_Qwen_2_72B\<close> is invoked in
  its place, with the model \<open>blackbox\<close> and a timeout of 20 seconds, and the result names
  \<open>Blackbox\<close>, the requested name, as provider. For an absent name, lines 38-39 rename
  to \<open>Qwen_Qwen_2_72B\<close> first, so that label, model and floor are those of the class.
\<close>

theorem unregistered_name_labels_result:
  "provider_map (ascii ''Blackbox'') = None \<and>
   get_chat_response all_up (ascii ''hi'') (Some (ascii ''Blackbox'')) False (Num 20) =
     ([Call (ascii ''blackbox'') (ascii ''hi'') (Some Qwen_Qwen_2_72B) False (Num 20)],
      Inr (answered False (ascii ''Blackbox'') (ascii ''blackbox'')
             (Response (ascii ''ok'') [ascii ''ab'', ascii ''x<HtMl>'', ascii ''cd'']
                StopIteration))) \<and>
   provider (answered False (ascii ''Blackbox'') (ascii ''blackbox'')
               (Response (ascii ''ok'') [ascii ''ab'', ascii ''x<HtMl>'', ascii ''cd'']
                  StopIteration)) = Some (ascii ''Blackbox'') \<and>
   get_chat_response all_up (ascii ''hi'') None False (Num 20) =
     ([Call (ascii ''qwen-2.5-72b'') (ascii ''hi'') (Some Qwen_Qwen_2_72B) False (Num 45)],
      Inr (answered False (ascii ''Qwen_Qwen_2_72B'') (ascii ''qwen-2.5-72b'')
             (Response (ascii ''ok'') [ascii ''ab'', ascii ''x<HtMl>'', ascii ''cd'']
                StopIteration)))"
  by (simp add: get_chat_response_def all_up_def Let_def answered_def provider_map_def
      model_for_def floor_timeout_def py_max_def ascii_def)

text \<open>
  C7, at the request \<open>{"message": "hi", "provider": "\ud800"}\<close> to \<open>/python/chat\<close> when
  the default class raises: \<open>get_chat_response\<close> raises at the \<open>print\<close> of line 100 and
  the endpoint answers with status 500 and the provider \<open>error\<close>.
\<close>

theorem chat_answers_500_on_unprintable_name:
  "chat all_down (Request (Str (ascii ''hi'')) (Str [55296]) No_number) =
     ([Call (ascii ''gpt-4o-mini'') (ascii ''hi'') (Some Qwen_Qwen_2_72B) False (Num 20)],
      Json_failure (encode_error (line_100 [55296] (ascii ''connection refused'')))
        (chat_failure_head @ encode_error (line_100 [55296] (ascii ''connection refused'')))
        (ascii ''error''),
      500)"
  by (simp add: chat_def get_field_def get_chat_response_def all_down_def Let_def
      floor_timeout_def provider_map_def model_for_def py_print_def printable_def
      is_surrogate_def line_100_def line_100_head_def ascii_def)

text \<open>
  C8 as stated fails: on exhaustion with the message \<open>privet\<close> (the first keyword of
  line 162) the response text is not the greeting of the fallback responder.
\<close>

theorem privet_exhaustion_text_counterexample:
  "get_demo_response kw_privet = demo_greeting \<and>
   snd (get_chat_response all_down kw_privet None False (Num 20)) =
     Inr (exhausted (ascii ''Qwen_Qwen_2_72B'')) \<and>
   response (exhausted (ascii ''Qwen_Qwen_2_72B'')) \<noteq> Some demo_greeting"
proof -
  have "get_demo_response kw_privet = demo_greeting"
    by (simp add: get_demo_response_def any_in_def str_lower_def lower_cp_def kw_privet_def
        Let_def)
  moreover have "snd (get_chat_response all_down kw_privet None False (Num 20)) =
     Inr (exhausted (ascii ''Qwen_Qwen_2_72B''))"
    by (simp add: get_chat_response_def all_down_def Let_def backup_providers_def
      attempt_backup_def py_print_def printable_def is_surrogate_def
      line_100_def line_108_def line_146_def line_100_head_def line_108_head_def
      line_146_head_def ascii_def)
  moreover have "response (exhausted (ascii ''Qwen_Qwen_2_72B'')) \<noteq> Some demo_greeting"
    by (simp add: exhausted_def apology_head_def demo_greeting_def)
  ultimately show ?thesis by simp
qed

text \<open>
  C8, amended. When the message is \<open>privet\<close>, every attempt raises, and the preferred
  name and the texts of the exceptions hold no surrogate, the function returns, the
  response text is the apology of line 152 around the preferred name, which is not the
  greeting of the fallback responder, and the provider field ends with \<open>_fallback\<close>.
\<close>

theorem privet_exhaustion_apology:
  assumes "sp = (case sp0 of None \<Rightarrow> ascii ''Qwen_Qwen_2_72B'' | Some s \<Rightarrow> s)"
    and "printable sp"
    and "all_raise create (attempts kw_privet sp0 use_stream timeout)"
  shows "\<exists>res. snd (get_chat_response create kw_privet sp0 use_stream timeout) = Inr res \<and>
           response res = Some (apology_head @ sp @ apology_tail) \<and>
           apology_head @ sp @ apology_tail \<noteq> get_demo_response kw_privet \<and>
           (\<exists>p. provider res = Some p \<and> suffix (ascii ''_fallback'') p)"
proof -
  have "get_demo_response kw_privet = demo_greeting"
    by (simp add: get_demo_response_def any_in_def str_lower_def lower_cp_def kw_privet_def
        Let_def)
  moreover have "apology_head @ sp @ apology_tail \<noteq> demo_greeting"
    by (simp add: apology_head_def demo_greeting_def)
  moreover have "snd (get_chat_response create kw_privet sp0 use_stream timeout) =
      Inr (exhausted sp)"
    using get_chat_response_all_failed [OF assms] by simp
  ultimately show ?thesis
    by (simp add: exhausted_def suffix_def)
qed

theorem privet_exhaustion_apology_witness:
  "printable (ascii ''Qwen_Qwen_2_72B'') \<and>
   all_raise all_down (attempts kw_privet None False (Num 20)) \<and>
   (\<exists>res. snd (get_chat_response all_down kw_privet None False (Num 20)) = Inr res \<and>
      response res = Some (apology_head @ ascii ''Qwen_Qwen_2_72B'' @ apology_tail) \<and>
      (\<exists>p. provider res = Some p \<and> suffix (ascii ''_fallback'') p))"
proof -
  have p: "printable (ascii ''Qwen_Qwen_2_72B'')"
    by (simp add: printable_def is_surrogate_def ascii_def)
  have h: "all_raise all_down (attempts kw_privet None False (Num 20))"
    by (simp add: all_raise_def all_down_def list_all_iff printable_def is_surrogate_def
        ascii_def)
  from privet_exhaustion_apology [where ?sp0.0 = None and create = all_down
      and use_stream = False and timeout = "Num 20", OF _ p h] p h
  show ?thesis by auto
qed

section \<open>Properties of the provider probe\<close>

text \<open>
  C9. For a name that is no key of the registry, \<open>test_provider\<close> invokes no provider
  and returns the status \<open>error\<close> with the "not found" message for that name; the
  answer does not depend on what the providers would do, so every call with that name
  returns the same.
\<close>

theorem test_provider_unregistered:
  assumes "providers name = None"
  shows "test_provider providers create name =
           ([], Probe_status (ascii ''error'') (prov_head @ name @ not_found_tail)) \<and>
         test_provider providers create' name = test_provider providers create name"
  using assms by (simp add: test_provider_def)

theorem test_provider_unregistered_witness:
  "[ascii ''You'' \<mapsto> You] (ascii ''Nope'') = None \<and>
   test_provider [ascii ''You'' \<mapsto> You] all_up (ascii ''Nope'') =
     ([], Probe_status (ascii ''error'') (prov_head @ ascii ''Nope'' @ not_found_tail)) \<and>
   test_provider [ascii ''You'' \<mapsto> You] all_down (ascii ''Nope'') =
     test_provider [ascii ''You'' \<mapsto> You] all_up (ascii ''Nope'')"
proof -
  have h: "[ascii ''You'' \<mapsto> You] (ascii ''Nope'') = None"
    by (simp add: ascii_def)
  from test_provider_unregistered [where providers = "[ascii ''You'' \<mapsto> You]"
      and name = "ascii ''Nope''" and create = all_up and create' = all_down, OF h] h
  show ?thesis by simp
qed

section \<open>Properties of the timeouts\<close>

text \<open>
  C4 as stated fails: a request to \<open>/python/chat/stream\<close> for \<open>FreeGpt\<close>, which has no
  floor, with a timeout of 500 milliseconds (\<open>float(500) / 1000\<close> is 0.5) invokes the
  provider with half a second, below the bound 1; and 90000 milliseconds
  (\<open>float(90000) / 1000\<close> is 90.0) become 20 seconds, not 60.
\<close>

theorem stream_timeout_not_clamped_counterexample:
  "map c_timeout (fst (chat_stream all_up
      (Request (Str (ascii ''hi'')) (Str (ascii ''FreeGpt'')) (Quotient (Num (1 / 2)))))) =
     [Num (1 / 2)] \<and>
   py_lt (Num (1 / 2)) (Num 1) \<and>
   map c_timeout (fst (chat_stream all_up
      (Request (Str (ascii ''hi'')) (Str (ascii ''FreeGpt'')) (Quotient (Num 90))))) =
     [Num 20]"
  by (simp add: chat_stream_def stream_response_generator_def get_chat_response_def
      get_field_def stream_timeout_def floor_timeout_def all_up_def Let_def ascii_def)

text \<open>
  C4, amended. For a caller's timeout that is a finite number, the first attempt of a
  dispatch is invoked with \<open>max(timeout, 45)\<close> when the preferred name is
  \<open>Qwen_Qwen_2_72B\<close> or absent, with \<open>max(timeout, 30)\<close> when it is \<open>Qwen_Qwen_2_5_Max\<close>
  or \<open>Qwen_Qwen_2_5\<close>, and with the caller's timeout unchanged when it is another key of
  the provider table. The streaming endpoint takes as caller's timeout the quotient of
  the requested milliseconds by 1000 when that is a number in \<open>(0, 60]\<close>, and 20
  seconds when it is another number, an infinity, absent or not convertible; it does
  not clamp to \<open>[1, 60]\<close>. This timeout is the one of the dispatch.
\<close>

theorem first_attempt_timeout:
  "(sp = (case sp0 of None \<Rightarrow> ascii ''Qwen_Qwen_2_72B'' | Some s \<Rightarrow> s) \<and>
    provider_map sp \<noteq> None \<longrightarrow>
      fst (get_chat_response create message sp0 use_stream (Num x)) \<noteq> [] \<and>
      c_timeout (hd (fst (get_chat_response create message sp0 use_stream (Num x)))) =
        Num (if sp = ascii ''Qwen_Qwen_2_72B'' then max x 45
             else if sp = ascii ''Qwen_Qwen_2_5_Max'' \<or> sp = ascii ''Qwen_Qwen_2_5''
               then max x 30
             else x)) \<and>
   stream_timeout (Quotient (Num v)) = Inr (Num (if 0 < v \<and> v \<le> 60 then v else 20)) \<and>
   stream_timeout (Quotient Pos_inf) = Inr (Num 20) \<and>
   stream_timeout (Quotient Neg_inf) = Inr (Num 20) \<and>
   stream_timeout No_number = Inr (Num 20) \<and>
   stream_timeout Not_a_number = Inr (Num 20) \<and>
   (j \<noteq> Too_large \<and> j \<noteq> Quotient Nan \<longrightarrow>
      (\<exists>t. stream_timeout j = Inr (Num t) \<and> 0 < t \<and> t \<le> 60)) \<and>
   (stream_timeout j = Inr t \<longrightarrow>
      fst (chat_stream create (Request (Str (c # cs)) p j)) =
        fst (get_chat_response create (c # cs) (get_field p None) True t))"
proof -
  have first: "fst (get_chat_response create message sp0 use_stream (Num x)) \<noteq> [] \<and>
      c_timeout (hd (fst (get_chat_response create message sp0 use_stream (Num x)))) =
        floor_timeout (case sp0 of None \<Rightarrow> ascii ''Qwen_Qwen_2_72B'' | Some s \<Rightarrow> s) (Num x)"
    unfolding get_chat_response_def Let_def
    by (simp split: sum.splits prod.splits option.splits)
  have fl: "floor_timeout sp (Num x) =
        Num (if sp = ascii ''Qwen_Qwen_2_72B'' then max x 45
             else if sp = ascii ''Qwen_Qwen_2_5_Max'' \<or> sp = ascii ''Qwen_Qwen_2_5''
               then max x 30
             else x)"
    unfolding floor_timeout_def py_max_def by (simp add: max_def)
  have a: "sp = (case sp0 of None \<Rightarrow> ascii ''Qwen_Qwen_2_72B'' | Some s \<Rightarrow> s) \<and>
    provider_map sp \<noteq> None \<longrightarrow>
      fst (get_chat_response create message sp0 use_stream (Num x)) \<noteq> [] \<and>
      c_timeout (hd (fst (get_chat_response create message sp0 use_stream (Num x)))) =
        Num (if sp = ascii ''Qwen_Qwen_2_72B'' then max x 45
             else if sp = ascii ''Qwen_Qwen_2_5_Max'' \<or> sp = ascii ''Qwen_Qwen_2_5''
               then max x 30
             else x)"
  proof (rule impI)
    assume h: "sp = (case sp0 of None \<Rightarrow> ascii ''Qwen_Qwen_2_72B'' | Some s \<Rightarrow> s) \<and>
      provider_map sp \<noteq> None"
    then have eq: "(case sp0 of None \<Rightarrow> ascii ''Qwen_Qwen_2_72B'' | Some s \<Rightarrow> s) = sp"
      by simp
    from first [unfolded eq]
    have f1: "fst (get_chat_response create message sp0 use_stream (Num x)) \<noteq> []"
      and f2: "c_timeout (hd (fst (get_chat_response create message sp0 use_stream (Num x)))) =
        floor_timeout sp (Num x)"
      by blast+
    from f1 f2 [unfolded fl]
    show "fst (get_chat_response create message sp0 use_stream (Num x)) \<noteq> [] \<and>
      c_timeout (hd (fst (get_chat_response create message sp0 use_stream (Num x)))) =
        Num (if sp = ascii ''Qwen_Qwen_2_72B'' then max x 45
             else if sp = ascii ''Qwen_Qwen_2_5_Max'' \<or> sp = ascii ''Qwen_Qwen_2_5''
               then max x 30
             else x)"
      by (rule conjI)
  qed
  have b: "stream_timeout (Quotient (Num v)) = Inr (Num (if 0 < v \<and> v \<le> 60 then v else 20))"
    by (simp add: stream_timeout_def Let_def)
  have c: "stream_timeout (Quotient Pos_inf) = Inr (Num 20)"
    "stream_timeout (Quotient Neg_inf) = Inr (Num 20)"
    "stream_timeout No_number = Inr (Num 20)"
    "stream_timeout Not_a_number = Inr (Num 20)"
    by (simp_all add: stream_timeout_def Let_def)
  have d: "j \<noteq> Too_large \<and> j \<noteq> Quotient Nan \<longrightarrow>
      (\<exists>t. stream_timeout j = Inr (Num t) \<and> 0 < t \<and> t \<le> 60)"
  proof (cases j)
    case (Quotient f)
    then show ?thesis
      by (cases f) (auto simp: stream_timeout_def Let_def)
  qed (simp_all add: stream_timeout_def Let_def)
  have e: "stream_timeout j = Inr t \<longrightarrow>
      fst (chat_stream create (Request (Str (c # cs)) p j)) =
        fst (get_chat_response create (c # cs) (get_field p None) True t)"
    unfolding chat_stream_def stream_response_generator_def Let_def
    by (simp add: get_field_def split: prod.splits)
  from a b c d e show ?thesis by blast
qed

theorem first_attempt_timeout_witness:
  "provider_map (ascii ''Qwen_Qwen_2_5'') \<noteq> None \<and>
   c_timeout (hd (fst (get_chat_response all_down (ascii ''hi'') (Some (ascii ''Qwen_Qwen_2_5''))
                         False (Num 20)))) = Num 30 \<and>
   stream_timeout (Quotient (Num (1 / 2))) = Inr (Num (1 / 2)) \<and>
   fst (chat_stream all_up (Request (Str (ascii ''hi'')) Null (Quotient (Num (1 / 2))))) =
     fst (get_chat_response all_up (ascii ''hi'') None True (Num (1 / 2)))"
proof -
  have h: "provider_map (ascii ''Qwen_Qwen_2_5'') \<noteq> None"
    by (simp add: provider_map_def ascii_def)
  have s: "stream_timeout (Quotient (Num (1 / 2))) = Inr (Num (1 / 2))"
    by (simp add: stream_timeout_def Let_def)
  have n: "Quotient (Num (1 / 2)) \<noteq> Too_large \<and> Quotient (Num (1 / 2)) \<noteq> Quotient Nan"
    by simp
  have hi: "ascii ''hi'' = 104 # [105]"
    by (simp add: ascii_def)
  from first_attempt_timeout [where sp = "ascii ''Qwen_Qwen_2_5''"
      and ?sp0.0 = "Some (ascii ''Qwen_Qwen_2_5'')" and create = all_down
      and message = "ascii ''hi''" and use_stream = False and x = 20 and v = "1 / 2"
      and j = "Quotient (Num (1 / 2))" and t = "Num (1 / 2)"] h
  have A: "c_timeout (hd (fst (get_chat_response all_down (ascii ''hi'')
             (Some (ascii ''Qwen_Qwen_2_5'')) False (Num 20)))) = Num 30"
    by (simp add: ascii_def)
  from first_attempt_timeout [where create = all_up and c = 104 and cs = "[105]" and p = Null
      and j = "Quotient (Num (1 / 2))" and t = "Num (1 / 2)"] s n
  have B: "fst (chat_stream all_up (Request (Str (104 # [105])) Null (Quotient (Num (1 / 2))))) =
     fst (get_chat_response all_up (104 # [105]) (get_field Null None) True (Num (1 / 2)))"
    by blast
  from h A B s hi show ?thesis by (simp add: get_field_def)
qed

section \<open>Properties of the stream relay\<close>

lemma relay_chunks_html:
  assumes "\<exists>c \<in> set cs. html_in c"
  shows "relay_chunks prov cs full =
           (map (\<lambda>c. Chunk_event c prov) (takeWhile (\<lambda>c. \<not> html_in c) cs)
              @ [Error_event html_msg],
            full @ concat (takeWhile (\<lambda>c. \<not> html_in c) cs), True)"
  using assms
proof (induction cs arbitrary: full)
  case Nil
  then show ?case by simp
next
  case (Cons c cs)
  show ?case
  proof (cases "html_in c")
    case True
    then show ?thesis by simp
  next
    case False
    with Cons.prems have "\<exists>c \<in> set cs. html_in c" by simp
    from Cons.IH [OF this] False show ?thesis by simp
  qed
qed

lemma relay_chunks_clean:
  assumes "\<forall>c \<in> set cs. \<not> html_in c"
  shows "relay_chunks prov cs full =
           (map (\<lambda>c. Chunk_event c prov) cs, full @ concat cs, False)"
  using assms by (induction cs arbitrary: full) simp_all

lemma get_demo_response_nonempty: "get_demo_response message \<noteq> []"
  by (simp add: get_demo_response_def Let_def demo_greeting_def demo_about_def
      demo_create_def demo_other_def)

text \<open>
  C5. When the dispatch returned a stream and some chunk of it contains \<open><html\<close> in any
  case, the relay emits the start event, one chunk event for each chunk before the
  first such chunk, then the error event and the final event with the text gathered so
  far: no chunk event for the HTML chunk or for anything after it.
\<close>

theorem html_chunk_stops_relay:
  assumes "snd (get_chat_response create message prov True timeout) = Inr res"
    and "streaming res = Some True"
    and "response_stream res = Some r"
    and "\<exists>c \<in> set (chunks r). html_in c"
    and "before = takeWhile (\<lambda>c. \<not> html_in c) (chunks r)"
  shows "snd (stream_response_generator create message prov timeout) =
           Status_start (provider res)
           # map (\<lambda>c. Chunk_event c (provider res)) before
           @ [Error_event html_msg,
              Done_event (Some (concat before)) (provider res) (model res) Wall_clock]"
proof -
  obtain calls where out: "get_chat_response create message prov True timeout = (calls, Inr res)"
    using assms(1) by (cases "get_chat_response create message prov True timeout") simp
  from relay_chunks_html [OF assms(4), of "provider res" "[]"] assms(5)
  have "relay_chunks (provider res) (chunks r) [] =
          (map (\<lambda>c. Chunk_event c (provider res)) before @ [Error_event html_msg],
           concat before, True)"
    by simp
  with out assms(2,3) show ?thesis
    by (simp add: stream_response_generator_def Let_def)
qed

theorem html_chunk_stops_relay_witness:
  "snd (get_chat_response all_up (ascii ''hi'') None True (Num 20)) =
     Inr (answered True (ascii ''Qwen_Qwen_2_72B'') (ascii ''qwen-2.5-72b'')
            (Response (ascii ''ok'') [ascii ''ab'', ascii ''x<HtMl>'', ascii ''cd'']
               StopIteration)) \<and>
   html_in (ascii ''x<HtMl>'') \<and>
   snd (stream_response_generator all_up (ascii ''hi'') None (Num 20)) =
     [Status_start (Some (ascii ''Qwen_Qwen_2_72B'')),
      Chunk_event (ascii ''ab'') (Some (ascii ''Qwen_Qwen_2_72B'')),
      Error_event html_msg,
      Done_event (Some (ascii ''ab'')) (Some (ascii ''Qwen_Qwen_2_72B''))
        (Some (ascii ''qwen-2.5-72b'')) Wall_clock]"
proof -
  let ?r = "Response (ascii ''ok'') [ascii ''ab'', ascii ''x<HtMl>'', ascii ''cd''] StopIteration"
  let ?res = "answered True (ascii ''Qwen_Qwen_2_72B'') (ascii ''qwen-2.5-72b'') ?r"
  have res: "snd (get_chat_response all_up (ascii ''hi'') None True (Num 20)) = Inr ?res"
    by (simp add: get_chat_response_def all_up_def Let_def model_for_def ascii_def)
  have s: "streaming ?res = Some True" and rs: "response_stream ?res = Some ?r"
    and p: "provider ?res = Some (ascii ''Qwen_Qwen_2_72B'')"
    and m: "model ?res = Some (ascii ''qwen-2.5-72b'')"
    by (simp_all add: answered_def)
  have h1: "\<not> html_in (ascii ''ab'')" and h2: "html_in (ascii ''x<HtMl>'')"
    by (simp_all add: html_in_def str_lower_def lower_cp_def ascii_def sublist_Cons_right)
  have ex: "\<exists>c \<in> set (chunks ?r). html_in c"
    using h2 by simp
  have tw: "takeWhile (\<lambda>c. \<not> html_in c) (chunks ?r) = [ascii ''ab'']"
    using h1 h2 by simp
  from html_chunk_stops_relay [OF res s rs ex refl] res h2 p m tw
  show ?thesis by simp
qed

text \<open>
  C6 as stated fails: when every invocation raises, the relay emits no error event and
  does not consult the fallback responder; it relays the apology of the dispatcher.
\<close>

theorem exhausted_stream_no_error_event_counterexample:
  "snd (stream_response_generator all_down (ascii ''hi'') (Some (ascii ''You'')) (Num 20)) =
     [Status_start (Some (ascii ''You_fallback'')),
      Text_event (Some (apology_head @ ascii ''You'' @ apology_tail))
        (Some (ascii ''You_fallback'')),
      Done_event (Some (apology_head @ ascii ''You'' @ apology_tail))
        (Some (ascii ''You_fallback'')) (Some (ascii ''fallback'')) (Seconds (1 / 10))] \<and>
   filter is_error_event
     (snd (stream_response_generator all_down (ascii ''hi'') (Some (ascii ''You'')) (Num 20))) = [] \<and>
   apology_head @ ascii ''You'' @ apology_tail \<noteq> get_demo_response (ascii ''hi'')"
proof -
  have g: "get_chat_response all_down (ascii ''hi'') (Some (ascii ''You'')) True (Num 20) =
      (attempts (ascii ''hi'') (Some (ascii ''You'')) True (Num 20), Inr (exhausted (ascii ''You'')))"
    by (intro get_chat_response_all_failed)
      (simp_all add: all_raise_def all_down_def list_all_iff printable_def is_surrogate_def
        ascii_def)
  have f: "snd (stream_response_generator all_down (ascii ''hi'') (Some (ascii ''You'')) (Num 20)) =
     [Status_start (Some (ascii ''You_fallback'')),
      Text_event (Some (apology_head @ ascii ''You'' @ apology_tail))
        (Some (ascii ''You_fallback'')),
      Done_event (Some (apology_head @ ascii ''You'' @ apology_tail))
        (Some (ascii ''You_fallback'')) (Some (ascii ''fallback'')) (Seconds (1 / 10))]"
    unfolding stream_response_generator_def g
    by (simp add: Let_def exhausted_def ascii_def)
  have d: "get_demo_response (ascii ''hi'') = demo_greeting"
    by (simp add: get_demo_response_def any_in_def str_lower_def lower_cp_def Let_def
        ascii_def sublist_Cons_right)
  have n: "apology_head @ ascii ''You'' @ apology_tail \<noteq> demo_greeting"
    by (simp add: apology_head_def demo_greeting_def)
  from f d n show ?thesis by (simp add: is_error_event_def)
qed

text \<open>
  C6, amended. When every invocation raises, and the preferred name and the texts of
  the exceptions hold no surrogate, the relay emits a start event, a text event with
  the apology of the dispatcher and a final event with that same text, and no error
  event. When the dispatch returns an iterator that raises before its first chunk, the
  relay emits a start event, an error event with the text of the exception, a text
  event with the answer of the fallback responder and a final event with that same
  text. In both cases the sequence of frames ends with a final event whose text is not
  empty.
\<close>

theorem stream_failure_ends_with_text:
  "(sp = (case prov of None \<Rightarrow> ascii ''Qwen_Qwen_2_72B'' | Some s \<Rightarrow> s) \<and>
    printable sp \<and> all_raise create (attempts message prov True timeout) \<longrightarrow>
      stream_response_generator create message prov timeout =
        (attempts message prov True timeout,
         [Status_start (Some (sp @ ascii ''_fallback'')),
          Text_event (Some (apology_head @ sp @ apology_tail)) (Some (sp @ ascii ''_fallback'')),
          Done_event (Some (apology_head @ sp @ apology_tail)) (Some (sp @ ascii ''_fallback''))
            (Some (ascii ''fallback'')) (Seconds (1 / 10))]) \<and>
      apology_head @ sp @ apology_tail \<noteq> []) \<and>
   (snd (get_chat_response create message prov True timeout) = Inr res \<and>
    streaming res = Some True \<and> response_stream res = Some r \<and>
    chunks r = [] \<and> ending r = Raise (Exception s) \<longrightarrow>
      snd (stream_response_generator create message prov timeout) =
        [Status_start (provider res),
         Error_event s,
         Text_event (Some (get_demo_response message)) (Some (ascii ''BOOOMERANGS-Error'')),
         Done_event (Some (get_demo_response message)) (Some (ascii ''BOOOMERANGS-Error''))
           (Some (ascii ''error-mode'')) Wall_clock] \<and>
      get_demo_response message \<noteq> [])"
proof (rule conjI; rule impI)
  assume h: "sp = (case prov of None \<Rightarrow> ascii ''Qwen_Qwen_2_72B'' | Some s \<Rightarrow> s) \<and>
    printable sp \<and> all_raise create (attempts message prov True timeout)"
  then have sp: "sp = (case prov of None \<Rightarrow> ascii ''Qwen_Qwen_2_72B'' | Some s \<Rightarrow> s)"
    and psp: "printable sp"
    and fail: "all_raise create (attempts message prov True timeout)"
    by blast+
  from get_chat_response_all_failed [OF sp psp fail]
  have "get_chat_response create message prov True timeout =
      (attempts message prov True timeout, Inr (exhausted sp))" .
  then have "stream_response_generator create message prov timeout =
        (attempts message prov True timeout,
         [Status_start (Some (sp @ ascii ''_fallback'')),
          Text_event (Some (apology_head @ sp @ apology_tail)) (Some (sp @ ascii ''_fallback'')),
          Done_event (Some (apology_head @ sp @ apology_tail)) (Some (sp @ ascii ''_fallback''))
            (Some (ascii ''fallback'')) (Seconds (1 / 10))])"
    by (simp add: stream_response_generator_def Let_def exhausted_def)
  moreover have "apology_head @ sp @ apology_tail \<noteq> []"
    by (simp add: apology_head_def)
  ultimately show "stream_response_generator create message prov timeout =
        (attempts message prov True timeout,
         [Status_start (Some (sp @ ascii ''_fallback'')),
          Text_event (Some (apology_head @ sp @ apology_tail)) (Some (sp @ ascii ''_fallback'')),
          Done_event (Some (apology_head @ sp @ apology_tail)) (Some (sp @ ascii ''_fallback''))
            (Some (ascii ''fallback'')) (Seconds (1 / 10))]) \<and>
      apology_head @ sp @ apology_tail \<noteq> []"
    by simp
next
  assume a: "snd (get_chat_response create message prov True timeout) = Inr res \<and>
    streaming res = Some True \<and> response_stream res = Some r \<and>
    chunks r = [] \<and> ending r = Raise (Exception s)"
  then obtain calls where "get_chat_response create message prov True timeout = (calls, Inr res)"
    by (cases "get_chat_response create message prov True timeout") simp
  with a show "snd (stream_response_generator create message prov timeout) =
        [Status_start (provider res),
         Error_event s,
         Text_event (Some (get_demo_response message)) (Some (ascii ''BOOOMERANGS-Error'')),
         Done_event (Some (get_demo_response message)) (Some (ascii ''BOOOMERANGS-Error''))
           (Some (ascii ''error-mode'')) Wall_clock] \<and>
      get_demo_response message \<noteq> []"
    by (simp add: stream_response_generator_def Let_def except_frames_def
        get_demo_response_nonempty)
qed

theorem stream_failure_ends_with_text_witness:
  "printable (ascii ''Qwen_Qwen_2_72B'') \<and>
   all_raise all_down (attempts kw_privet None True (Num 20)) \<and>
   snd (stream_response_generator all_down kw_privet None (Num 20)) =
     [Status_start (Some (ascii ''Qwen_Qwen_2_72B'' @ ascii ''_fallback'')),
      Text_event (Some (apology_head @ ascii ''Qwen_Qwen_2_72B'' @ apology_tail))
        (Some (ascii ''Qwen_Qwen_2_72B'' @ ascii ''_fallback'')),
      Done_event (Some (apology_head @ ascii ''Qwen_Qwen_2_72B'' @ apology_tail))
        (Some (ascii ''Qwen_Qwen_2_72B'' @ ascii ''_fallback'')) (Some (ascii ''fallback''))
        (Seconds (1 / 10))] \<and>
   snd (get_chat_response broken_stream kw_privet None True (Num 20)) =
     Inr (answered True (ascii ''Qwen_Qwen_2_72B'') (ascii ''qwen-2.5-72b'')
            (Response [] [] (Raise (Exception (ascii ''boom''))))) \<and>
   snd (stream_response_generator broken_stream kw_privet None (Num 20)) =
     [Status_start (Some (ascii ''Qwen_Qwen_2_72B'')),
      Error_event (ascii ''boom''),
      Text_event (Some (get_demo_response kw_privet)) (Some (ascii ''BOOOMERANGS-Error'')),
      Done_event (Some (get_demo_response kw_privet)) (Some (ascii ''BOOOMERANGS-Error''))
        (Some (ascii ''error-mode'')) Wall_clock]"
proof -
  have p: "printable (ascii ''Qwen_Qwen_2_72B'')"
    by (simp add: printable_def is_surrogate_def ascii_def)
  have h: "all_raise all_down (attempts kw_privet None True (Num 20))"
    by (simp add: all_raise_def all_down_def list_all_iff printable_def is_surrogate_def
        ascii_def)
  let ?r = "Response [] [] (Raise (Exception (ascii ''boom'')))"
  let ?res = "answered True (ascii ''Qwen_Qwen_2_72B'') (ascii ''qwen-2.5-72b'') ?r"
  have res: "snd (get_chat_response broken_stream kw_privet None True (Num 20)) = Inr ?res"
    by (simp add: get_chat_response_def broken_stream_def Let_def model_for_def ascii_def)
  have s: "streaming ?res = Some True" and rs: "response_stream ?res = Some ?r"
    and pr: "provider ?res = Some (ascii ''Qwen_Qwen_2_72B'')"
    by (simp_all add: answered_def)
  have A: "snd (stream_response_generator all_down kw_privet None (Num 20)) =
     [Status_start (Some (ascii ''Qwen_Qwen_2_72B'' @ ascii ''_fallback'')),
      Text_event (Some (apology_head @ ascii ''Qwen_Qwen_2_72B'' @ apology_tail))
        (Some (ascii ''Qwen_Qwen_2_72B'' @ ascii ''_fallback'')),
      Done_event (Some (apology_head @ ascii ''Qwen_Qwen_2_72B'' @ apology_tail))
        (Some (ascii ''Qwen_Qwen_2_72B'' @ ascii ''_fallback'')) (Some (ascii ''fallback''))
        (Seconds (1 / 10))]"
    using stream_failure_ends_with_text [where create = all_down and message = kw_privet
        and prov = None and timeout = "Num 20" and sp = "ascii ''Qwen_Qwen_2_72B''",
        THEN conjunct1] p h
    by simp
  have B: "snd (stream_response_generator broken_stream kw_privet None (Num 20)) =
     [Status_start (provider ?res),
      Error_event (ascii ''boom''),
      Text_event (Some (get_demo_response kw_privet)) (Some (ascii ''BOOOMERANGS-Error'')),
      Done_event (Some (get_demo_response kw_privet)) (Some (ascii ''BOOOMERANGS-Error''))
        (Some (ascii ''error-mode'')) Wall_clock]"
    using stream_failure_ends_with_text [where create = broken_stream and message = kw_privet
        and prov = None and timeout = "Num 20" and res = ?res and r = ?r
        and s = "ascii ''boom''", THEN conjunct2] res s rs
    by simp
  from p h A B res pr show ?thesis by simp
qed

end
